theory Spec2Isabelle
  imports Complex_Main "HOL-Library.AList" "HOL-Library.Char_ord" "HOL-Library.List_Lexorder"
begin

section \<open>Data model\<close>

text \<open>
  The relational store of the replenishment backend, restricted to the tables that the
  buffer engine, the recommendation engine, the sales aggregator and the KPI calculator
  read or write.

  Conventions of the embedding:
  \<^item> a timestamp (\<^verbatim>\<open>Date\<close>, \<^verbatim>\<open>TIMESTAMP(3)\<close>) is the number of milliseconds since the
    epoch, an \<^typ>\<open>int\<close>; calendar arithmetic of \<^verbatim>\<open>date-fns\<close> is done in UTC;
  \<^item> a \<^verbatim>\<open>DECIMAL\<close> column and a JavaScript \<^verbatim>\<open>number\<close> are both \<^typ>\<open>real\<close>: the
    rounding of IEEE doubles is not part of the model;
  \<^item> a table with a primary key is an association list from key to the remaining columns,
    with distinct keys; the position of a row in the list carries no meaning;
  \<^item> \<^verbatim>\<open>new Date()\<close> and the store's \<^verbatim>\<open>CURRENT_TIMESTAMP\<close> are one parameter \<open>now\<close> of
    each operation.
\<close>

type_synonym timestamp = int

definition MS_PER_DAY :: int where
  "MS_PER_DAY = 86400000"

definition subDays :: "timestamp \<Rightarrow> int \<Rightarrow> timestamp" where
  "subDays d n = d - n * MS_PER_DAY"

definition addDays :: "timestamp \<Rightarrow> int \<Rightarrow> timestamp" where
  "addDays d n = d + n * MS_PER_DAY"

definition startOfDay :: "timestamp \<Rightarrow> timestamp" where
  "startOfDay d = d - d mod MS_PER_DAY"

text \<open>The calendar day of a timestamp, as a day number (SQL \<^verbatim>\<open>date(ts)\<close>).\<close>

definition dayOf :: "timestamp \<Rightarrow> int" where
  "dayOf d = d div MS_PER_DAY"

record sales_event =
  se_org_id :: string
  se_order_id :: string
  se_line_id :: string
  se_order_datetime :: timestamp
  se_sku :: string
  se_qty :: real
  se_net_amount :: "real option"
  se_warehouse_id :: "string option"
  se_channel :: "string option"

record sales_daily_key =
  sd_org_id :: string
  sd_date :: timestamp
  sd_sku :: string
  sd_warehouse_id :: string
  sd_channel :: string

record sales_daily_val =
  sd_units :: real
  sd_revenue :: real
  sd_orders :: nat
  sd_updated_at :: timestamp

record stock_snapshot =
  ss_org_id :: string
  ss_date :: timestamp
  ss_sku :: string
  ss_warehouse_id :: string
  ss_qty_on_hand :: real
  ss_batch_id :: string
  ss_expiry_date :: "timestamp option"

record buffer_key =
  b_org_id :: string
  b_sku :: string
  b_warehouse_id :: string

record buffer_val =
  lead_time_days :: real
  avg_daily_demand :: real
  buffer_qty :: real
  red_th :: real
  yellow_th :: real
  updated_at :: timestamp

record catalog_row =
  c_org_id :: string
  c_sku :: string
  c_name :: string
  c_category :: "string option"

record lead_time_stat =
  lt_org_id :: string
  lt_supplier_id :: string
  lt_sku :: string
  lead_time_days_median :: real

record db =
  sales_events :: "sales_event list"
  sales_daily :: "(sales_daily_key \<times> sales_daily_val) list"
  stock_snapshots :: "stock_snapshot list"
  buffers :: "(buffer_key \<times> buffer_val) list"
  catalog :: "catalog_row list"
  lead_time_stats :: "lead_time_stat list"

text \<open>\<^verbatim>\<open>Number(x ?? 0)\<close> on a nullable decimal.\<close>

definition orZero :: "real option \<Rightarrow> real" where
  "orZero x = (case x of None \<Rightarrow> 0 | Some v \<Rightarrow> v)"

text \<open>The SQL aggregate \<^verbatim>\<open>AVG\<close>: null on no rows, else the sum over the number of rows.\<close>

definition sql_avg :: "real list \<Rightarrow> real option" where
  "sql_avg xs = (if xs = [] then None else Some (sum_list xs / real (length xs)))"

text \<open>The SQL aggregate \<^verbatim>\<open>SUM\<close>: null on no rows.\<close>

definition sql_sum :: "real list \<Rightarrow> real option" where
  "sql_sum xs = (if xs = [] then None else Some (sum_list xs))"

section \<open>Buffer engine (\<^verbatim>\<open>modules/calculations/buffers.ts\<close>)\<close>

definition DEFAULT_LEAD_TIME_DAYS :: real where
  "DEFAULT_LEAD_TIME_DAYS = 7"

definition BUFFER_FACTOR :: real where
  "BUFFER_FACTOR = 12 / 10"

text \<open>
  The rows selected by the \<^verbatim>\<open>where\<close> clause of the \<^verbatim>\<open>groupBy\<close> in \<^verbatim>\<open>recalcBuffers\<close>:
  organisation, warehouse, and \<^verbatim>\<open>date >= sinceDate\<close> (there is no upper bound).
\<close>

definition windowRows ::
  "db \<Rightarrow> string \<Rightarrow> string \<Rightarrow> timestamp \<Rightarrow> (sales_daily_key \<times> sales_daily_val) list" where
  "windowRows d orgId warehouseId sinceDate =
     filter (\<lambda>r. sd_org_id (fst r) = orgId \<and> sd_warehouse_id (fst r) = warehouseId
                 \<and> sinceDate \<le> sd_date (fst r)) (sales_daily d)"

text \<open>The units of the selected rows of one SKU.\<close>

definition skuUnits :: "(sales_daily_key \<times> sales_daily_val) list \<Rightarrow> string \<Rightarrow> real list" where
  "skuUnits rows s = map (\<lambda>r. sd_units (snd r)) (filter (\<lambda>r. sd_sku (fst r) = s) rows)"

text \<open>\<^verbatim>\<open>groupBy({by: ['sku'], _avg: {units: true}})\<close>: one result row per SKU that occurs.\<close>

definition demandRows :: "db \<Rightarrow> string \<Rightarrow> string \<Rightarrow> timestamp \<Rightarrow> (string \<times> real option) list" where
  "demandRows d orgId warehouseId sinceDate =
     (let rows = windowRows d orgId warehouseId sinceDate
      in map (\<lambda>s. (s, sql_avg (skuUnits rows s))) (remdups (map (\<lambda>r. sd_sku (fst r)) rows)))"

text \<open>
  \<^verbatim>\<open>prisma.buffers.upsert\<close> for one demand row: the \<^verbatim>\<open>update\<close> branch overwrites the six
  columns of the existing row, the \<^verbatim>\<open>create\<close> branch inserts a new row.
\<close>

definition upsertBuffer ::
  "timestamp \<Rightarrow> string \<Rightarrow> string \<Rightarrow> (string \<times> real option) \<Rightarrow>
   (buffer_key \<times> buffer_val) list \<Rightarrow> (buffer_key \<times> buffer_val) list" where
  "upsertBuffer now orgId warehouseId row tbl =
     (let avgDailyDemand = orZero (snd row);
          leadTimeDays = DEFAULT_LEAD_TIME_DAYS;
          bufferQty = avgDailyDemand * leadTimeDays * BUFFER_FACTOR;
          key = \<lparr>b_org_id = orgId, b_sku = fst row, b_warehouse_id = warehouseId\<rparr>
      in case map_of tbl key of
           Some old \<Rightarrow>
             AList.update key
               (old\<lparr>lead_time_days := leadTimeDays, avg_daily_demand := avgDailyDemand,
                    buffer_qty := bufferQty, red_th := bufferQty / 3,
                    yellow_th := (bufferQty * 2) / 3, updated_at := now\<rparr>) tbl
         | None \<Rightarrow>
             tbl @ [(key, \<lparr>lead_time_days = leadTimeDays, avg_daily_demand = avgDailyDemand,
                           buffer_qty = bufferQty, red_th = bufferQty / 3,
                           yellow_th = (bufferQty * 2) / 3, updated_at = now\<rparr>)])"

record recalc_result =
  updated :: nat

text \<open>The default value of the optional parameter \<^verbatim>\<open>lookbackDays = 60\<close>.\<close>

definition lookbackOf :: "int option \<Rightarrow> int" where
  "lookbackOf lookbackDays = (case lookbackDays of None \<Rightarrow> 60 | Some n \<Rightarrow> n)"

text \<open>
  \<^verbatim>\<open>recalcBuffers({orgId, warehouseId, lookbackDays = 60})\<close>: the optional look-back is an
  \<^typ>\<open>int option\<close>. The result is paired with the store after the call. The upserts of the
  transaction run in the order of the demand rows; their keys are distinct.
\<close>

definition recalcBuffers ::
  "timestamp \<Rightarrow> string \<Rightarrow> string \<Rightarrow> int option \<Rightarrow> db \<Rightarrow> recalc_result \<times> db" where
  "recalcBuffers now orgId warehouseId lookbackDays d =
     (let sinceDate = subDays now (lookbackOf lookbackDays);
          rows = demandRows d orgId warehouseId sinceDate
      in if rows = [] then (\<lparr>updated = 0\<rparr>, d)
         else (\<lparr>updated = length rows\<rparr>,
               d\<lparr>buffers := fold (upsertBuffer now orgId warehouseId) rows (buffers d)\<rparr>))"

text \<open>
  The key and the column values that \<open>upsertBuffer\<close> writes for a demand row, named for
  the statements below.
\<close>

definition bufferKey :: "string \<Rightarrow> string \<Rightarrow> string \<Rightarrow> buffer_key" where
  "bufferKey org wh s = \<lparr>b_org_id = org, b_sku = s, b_warehouse_id = wh\<rparr>"

definition bufferFor :: "timestamp \<Rightarrow> real option \<Rightarrow> buffer_val" where
  "bufferFor now a =
     \<lparr>lead_time_days = DEFAULT_LEAD_TIME_DAYS, avg_daily_demand = orZero a,
      buffer_qty = orZero a * DEFAULT_LEAD_TIME_DAYS * BUFFER_FACTOR,
      red_th = orZero a * DEFAULT_LEAD_TIME_DAYS * BUFFER_FACTOR / 3,
      yellow_th = (orZero a * DEFAULT_LEAD_TIME_DAYS * BUFFER_FACTOR * 2) / 3,
      updated_at = now\<rparr>"

record buffer_item =
  bi_sku :: string
  bi_warehouseId :: string
  bi_avgDailyDemand :: real
  bi_leadTimeDays :: real
  bi_bufferQty :: real
  bi_redThreshold :: real
  bi_yellowThreshold :: real
  bi_updatedAt :: timestamp

definition mapBuffer :: "buffer_key \<times> buffer_val \<Rightarrow> buffer_item" where
  "mapBuffer row =
     \<lparr>bi_sku = b_sku (fst row), bi_warehouseId = b_warehouse_id (fst row),
      bi_avgDailyDemand = avg_daily_demand (snd row), bi_leadTimeDays = lead_time_days (snd row),
      bi_bufferQty = buffer_qty (snd row), bi_redThreshold = red_th (snd row),
      bi_yellowThreshold = yellow_th (snd row), bi_updatedAt = updated_at (snd row)\<rparr>"

text \<open>
  \<^verbatim>\<open>listBuffersPage\<close>: the buffers of the warehouse ordered by SKU (here: the lexicographic
  order of the characters), then \<^verbatim>\<open>skip\<close> and \<^verbatim>\<open>take\<close>; \<open>total\<close> counts all of them.
\<close>

definition listBuffersPage ::
  "db \<Rightarrow> string \<Rightarrow> string \<Rightarrow> nat \<Rightarrow> nat \<Rightarrow> buffer_item list \<times> nat" where
  "listBuffersPage d org wh skip tk =
     (let rows = sort_key (\<lambda>r. b_sku (fst r))
                   (filter (\<lambda>r. b_org_id (fst r) = org \<and> b_warehouse_id (fst r) = wh)
                      (buffers d))
      in (map mapBuffer (take tk (drop skip rows)), length rows))"

section \<open>Recommendation engine (\<^verbatim>\<open>modules/recommendations/service.ts\<close>)\<close>

datatype zone = Red | Yellow | Green

datatype segment = SegA | SegB | SegC

text \<open>
  The three fixed reason texts, one per zone: urgent replenishment (red), plan an order
  (yellow), stock is fine (green).
\<close>

datatype reason = ReasonRed | ReasonYellow | ReasonGreen

definition resolveZone :: "real \<Rightarrow> real \<Rightarrow> real \<Rightarrow> zone" where
  "resolveZone onHand red yellow =
     (if onHand \<le> red then Red else if onHand \<le> yellow then Yellow else Green)"

text \<open>\<^verbatim>\<open>Math.round\<close>: the nearest integer, a tie going up.\<close>

definition jsRound :: "real \<Rightarrow> int" where
  "jsRound x = \<lfloor>x + 1 / 2\<rfloor>"

definition roundNumber :: "real \<Rightarrow> nat \<Rightarrow> real" where
  "roundNumber v precision =
     (let factor = 10 ^ precision in of_int (jsRound (v * factor)) / factor)"

text \<open>
  The overstock signal. The message of the source is a fixed text around
  \<^verbatim>\<open>Math.round(ratio * 100)\<close>; the record keeps that number.
\<close>

record overstock =
  ratio :: real
  message_pct :: int

definition detectOverstock :: "real \<Rightarrow> real option \<Rightarrow> overstock option" where
  "detectOverstock onHand avgDailyDemand =
     (case avgDailyDemand of
        None \<Rightarrow> None
      | Some a \<Rightarrow>
          if a = 0 \<or> a \<le> 0 then None
          else let demand30 = a * 30 in
            if demand30 \<le> 0 then None
            else let r = onHand / demand30 in
              if r \<le> 11 / 10 then None
              else Some \<lparr>ratio = roundNumber r 2, message_pct = jsRound (r * 100)\<rparr>)"

definition classifySegment :: "real \<Rightarrow> segment" where
  "classifySegment a = (if a \<ge> 20 then SegA else if a \<ge> 10 then SegB else SegC)"

record recommendation_input =
  in_orgId :: string
  in_warehouseId :: string
  in_date :: timestamp
  in_autoRecalc :: "bool option"
  in_page :: "int option"
  in_pageSize :: "nat option"

record recommendation_row =
  rec_sku :: string
  rec_category :: "string option"
  rec_name :: string
  rec_segment :: segment
  rec_zone :: zone
  rec_target :: real
  rec_onHand :: real
  rec_inbound :: real
  rec_suggestedQty :: real
  rec_reason :: reason
  rec_overstock :: "overstock option"
  rec_avgDailyDemand :: real
  rec_leadTimeDays :: real
  rec_daysOfSupply :: "real option"
  rec_bufferPenetration :: "real option"
  rec_monthlyDemand :: real

record recommendation_page =
  data :: "recommendation_row list"
  total_rows :: nat
  effectiveDate :: "timestamp option"

text \<open>
  \<^verbatim>\<open>fetchStockRows\<close>: the snapshots of the warehouse in \<open>[rangeStart, rangeEnd)\<close> for the
  SKUs of the page, grouped by SKU with the sum of \<^verbatim>\<open>qty_on_hand\<close>.
\<close>

definition stockInRange ::
  "db \<Rightarrow> string \<Rightarrow> string \<Rightarrow> string list \<Rightarrow> timestamp \<Rightarrow> timestamp \<Rightarrow> stock_snapshot list" where
  "stockInRange d org wh skuList rangeStart rangeEnd =
     filter (\<lambda>r. ss_org_id r = org \<and> ss_warehouse_id r = wh \<and> rangeStart \<le> ss_date r
                 \<and> ss_date r < rangeEnd \<and> ss_sku r \<in> set skuList) (stock_snapshots d)"

definition fetchStockRows ::
  "db \<Rightarrow> string \<Rightarrow> string \<Rightarrow> string list \<Rightarrow> timestamp \<Rightarrow> timestamp \<Rightarrow> (string \<times> real option) list" where
  "fetchStockRows d org wh skuList rangeStart rangeEnd =
     (if skuList = [] then []
      else let rows = stockInRange d org wh skuList rangeStart rangeEnd
           in map (\<lambda>s. (s, sql_sum (map ss_qty_on_hand (filter (\<lambda>r. ss_sku r = s) rows))))
                (remdups (map ss_sku rows)))"

text \<open>The first row under \<^verbatim>\<open>orderBy: {date: 'desc'}\<close>: the latest of the dates.\<close>

fun latest :: "timestamp list \<Rightarrow> timestamp option" where
  "latest [] = None"
| "latest (x # xs) = (case latest xs of None \<Rightarrow> Some x | Some m \<Rightarrow> Some (max x m))"

text \<open>
  The \<^verbatim>\<open>findFirst\<close> of the fallback: the latest snapshot date of the warehouse, of any SKU,
  with \<^verbatim>\<open>date <= dayEnd\<close>.
\<close>

definition fallbackDate :: "db \<Rightarrow> string \<Rightarrow> string \<Rightarrow> timestamp \<Rightarrow> timestamp option" where
  "fallbackDate d org wh dayEnd =
     latest (map ss_date
       (filter (\<lambda>r. ss_org_id r = org \<and> ss_warehouse_id r = wh \<and> ss_date r \<le> dayEnd)
          (stock_snapshots d)))"

text \<open>
  The stock rows and the effective date of \<^verbatim>\<open>getRecommendations\<close>: the requested day
  first, the day of the fallback date otherwise.
\<close>

definition resolveStock ::
  "db \<Rightarrow> string \<Rightarrow> string \<Rightarrow> string list \<Rightarrow> timestamp \<Rightarrow>
   (string \<times> real option) list \<times> timestamp option" where
  "resolveStock d org wh skuList dayStart =
     (let dayEnd = addDays dayStart 1;
          stockRows = fetchStockRows d org wh skuList dayStart dayEnd
      in if stockRows \<noteq> [] then (stockRows, Some dayStart)
         else case fallbackDate d org wh dayEnd of
                None \<Rightarrow> (stockRows, None)
              | Some fb \<Rightarrow>
                  let fallbackStart = startOfDay fb;
                      fallbackEnd = addDays fallbackStart 1;
                      stockRows' = fetchStockRows d org wh skuList fallbackStart fallbackEnd
                  in if stockRows' \<noteq> [] then (stockRows', Some fallbackStart)
                     else (stockRows', None))"

text \<open>The callback of \<^verbatim>\<open>buffers.map\<close>: the recommendation row of one buffer.\<close>

definition recommendationFor ::
  "(string \<rightharpoonup> real) \<Rightarrow> (string \<rightharpoonup> string option \<times> string) \<Rightarrow> buffer_item \<Rightarrow> recommendation_row" where
  "recommendationFor stockMap catalogMap buffer =
     (let onHand = (case stockMap (bi_sku buffer) of None \<Rightarrow> 0 | Some q \<Rightarrow> q);
          inbound = 0;
          target = bi_bufferQty buffer;
          orderRaw = target - (onHand + inbound);
          suggestedQty = of_int (max 0 \<lceil>orderRaw\<rceil>);
          z = resolveZone onHand (bi_redThreshold buffer) (bi_yellowThreshold buffer);
          rsn = (if z = Red then ReasonRed else if z = Yellow then ReasonYellow else ReasonGreen);
          a = bi_avgDailyDemand buffer;
          lt = bi_leadTimeDays buffer;
          daysOfSupply = (if a > 0 then Some (roundNumber (onHand / a) 1) else None);
          bufferPenetration =
            (if target > 0 then Some (roundNumber ((onHand + inbound) / target) 2) else None)
      in \<lparr>rec_sku = bi_sku buffer,
          rec_category = (case catalogMap (bi_sku buffer) of None \<Rightarrow> None | Some c \<Rightarrow> fst c),
          rec_name = (case catalogMap (bi_sku buffer) of None \<Rightarrow> bi_sku buffer | Some c \<Rightarrow> snd c),
          rec_segment = classifySegment a,
          rec_zone = z,
          rec_target = roundNumber target 1,
          rec_onHand = roundNumber onHand 1,
          rec_inbound = inbound,
          rec_suggestedQty = suggestedQty,
          rec_reason = rsn,
          rec_overstock = detectOverstock onHand (Some a),
          rec_avgDailyDemand = roundNumber a 1,
          rec_leadTimeDays = roundNumber lt 1,
          rec_daysOfSupply = daysOfSupply,
          rec_bufferPenetration = bufferPenetration,
          rec_monthlyDemand = roundNumber (a * 30) 1\<rparr>)"

text \<open>\<^verbatim>\<open>new Map(pairs)\<close>: a later pair with the same key replaces an earlier one.\<close>

definition jsMap :: "('k \<times> 'v) list \<Rightarrow> ('k \<rightharpoonup> 'v)" where
  "jsMap pairs = map_of (rev pairs)"

text \<open>
  The part of \<^verbatim>\<open>getRecommendations\<close> after the optional recalculation: it only reads the
  store. \<open>in_date\<close> is the parsed \<^verbatim>\<open>new Date(date)\<close>; the defaults are \<^verbatim>\<open>page = 1\<close> and
  \<^verbatim>\<open>pageSize = 100\<close>; the page size is a natural number, as every caller passes it.
\<close>

definition readRecommendations :: "recommendation_input \<Rightarrow> db \<Rightarrow> recommendation_page" where
  "readRecommendations inp d =
     (let pg = (case in_page inp of None \<Rightarrow> 1 | Some p \<Rightarrow> p);
          psz = (case in_pageSize inp of None \<Rightarrow> 100 | Some n \<Rightarrow> n);
          dayStart = startOfDay (in_date inp);
          skip = nat (max 0 ((pg - 1) * int psz));
          (bufs, tot) = listBuffersPage d (in_orgId inp) (in_warehouseId inp) skip psz
      in if bufs = [] then \<lparr>data = [], total_rows = tot, effectiveDate = None\<rparr>
         else
           let skuList = map bi_sku bufs;
               (stockRows, eff) = resolveStock d (in_orgId inp) (in_warehouseId inp) skuList dayStart;
               catalogRows = filter (\<lambda>c. c_org_id c = in_orgId inp \<and> c_sku c \<in> set skuList) (catalog d);
               stockMap = jsMap (map (\<lambda>r. (fst r, orZero (snd r))) stockRows);
               catalogMap = jsMap (map (\<lambda>c. (c_sku c, (c_category c, c_name c))) catalogRows)
           in \<lparr>data = map (recommendationFor stockMap catalogMap) bufs, total_rows = tot,
               effectiveDate = eff\<rparr>)"

text \<open>
  \<^verbatim>\<open>getRecommendations\<close> with \<^verbatim>\<open>autoRecalc = true\<close> by default: the recalculation runs with
  the default look-back before anything is read. The result is paired with the store
  after the call.
\<close>

definition getRecommendations ::
  "timestamp \<Rightarrow> recommendation_input \<Rightarrow> db \<Rightarrow> recommendation_page \<times> db" where
  "getRecommendations now inp d =
     (let d' = (if (case in_autoRecalc inp of None \<Rightarrow> True | Some b \<Rightarrow> b)
                then snd (recalcBuffers now (in_orgId inp) (in_warehouseId inp) None d)
                else d)
      in (readRecommendations inp d', d'))"

text \<open>
  Named for the statements below: the buffers of the requested page, and the on-hand
  quantities of the batches of one SKU on the day that starts at \<open>dayStart\<close>.
\<close>

definition pageBuffers :: "recommendation_input \<Rightarrow> db \<Rightarrow> buffer_item list" where
  "pageBuffers inp d =
     (let pg = (case in_page inp of None \<Rightarrow> 1 | Some p \<Rightarrow> p);
          psz = (case in_pageSize inp of None \<Rightarrow> 100 | Some n \<Rightarrow> n)
      in fst (listBuffersPage d (in_orgId inp) (in_warehouseId inp)
                (nat (max 0 ((pg - 1) * int psz))) psz))"

definition batchQtys :: "db \<Rightarrow> string \<Rightarrow> string \<Rightarrow> string \<Rightarrow> timestamp \<Rightarrow> real list" where
  "batchQtys d org wh s dayStart =
     map ss_qty_on_hand (stockInRange d org wh [s] dayStart (addDays dayStart 1))"

section \<open>Lead time of the explain payload (\<^verbatim>\<open>modules/assistant/payload.ts\<close>)\<close>



section \<open>Sales aggregator (\<^verbatim>\<open>modules/sales/daily-builder.ts\<close>)\<close>

definition WAREHOUSE_FALLBACK :: string where
  "WAREHOUSE_FALLBACK = ''GLOBAL''"

definition CHANNEL_FALLBACK :: string where
  "CHANNEL_FALLBACK = ''ALL''"

text \<open>
  The options of \<^verbatim>\<open>rebuildSalesDaily\<close>. \<^verbatim>\<open>from\<close> and \<^verbatim>\<open>to\<close> are date strings
  \<^verbatim>\<open>YYYY-MM-DD\<close>, given here by their day numbers.
\<close>

record rebuild_options =
  ro_orgId :: string
  ro_from :: "int option"
  ro_to :: "int option"

record rebuild_result =
  res_from :: int
  res_to :: int

text \<open>
  The store rejects an \<^verbatim>\<open>INSERT ... ON CONFLICT DO UPDATE\<close> that proposes two rows with the
  same conflict key; the statement then writes nothing.
\<close>

datatype error = CardinalityViolation

text \<open>
  The \<^verbatim>\<open>GROUP BY\<close> key of an event: \<^verbatim>\<open>warehouse_id\<close> and \<^verbatim>\<open>channel\<close> name the input columns,
  which are nullable; the sentinels are substituted in the select list only.
\<close>

type_synonym group_key = "string \<times> int \<times> string \<times> string option \<times> string option"

definition groupKey :: "sales_event \<Rightarrow> group_key" where
  "groupKey e =
     (se_org_id e, dayOf (se_order_datetime e), se_sku e, se_warehouse_id e, se_channel e)"

definition coalesce :: "'a option \<Rightarrow> 'a \<Rightarrow> 'a" where
  "coalesce x dflt = (case x of None \<Rightarrow> dflt | Some v \<Rightarrow> v)"

text \<open>The events of the \<^verbatim>\<open>WHERE\<close> clause: the organisation, and the time between the bounds.\<close>

definition eventsInRange :: "db \<Rightarrow> string \<Rightarrow> int \<Rightarrow> int \<Rightarrow> sales_event list" where
  "eventsInRange d org fromDate toDate =
     filter (\<lambda>e. se_org_id e = org
                 \<and> fromDate * MS_PER_DAY \<le> se_order_datetime e
                 \<and> se_order_datetime e \<le> toDate * MS_PER_DAY + (MS_PER_DAY - 1))
       (sales_events d)"

text \<open>
  The row that the \<^verbatim>\<open>SELECT\<close> produces for one group: key, units, revenue and the number
  of distinct orders. \<^verbatim>\<open>SUM\<close> skips the null amounts.
\<close>

definition selectRow ::
  "sales_event list \<Rightarrow> group_key \<Rightarrow> sales_daily_key \<times> real \<times> real \<times> nat" where
  "selectRow evs g =
     (let members = filter (\<lambda>e. groupKey e = g) evs;
          amounts = concat (map (\<lambda>e. case se_net_amount e of None \<Rightarrow> [] | Some v \<Rightarrow> [v]) members)
      in case g of (org, day, s, wh, ch) \<Rightarrow>
           (\<lparr>sd_org_id = org, sd_date = day * MS_PER_DAY, sd_sku = s,
             sd_warehouse_id = coalesce wh WAREHOUSE_FALLBACK,
             sd_channel = coalesce ch CHANNEL_FALLBACK\<rparr>,
            coalesce (sql_sum (map se_qty members)) 0,
            coalesce (sql_sum amounts) 0,
            length (remdups (map se_order_id members))))"

definition selectRows ::
  "sales_event list \<Rightarrow> (sales_daily_key \<times> real \<times> real \<times> nat) list" where
  "selectRows evs = map (selectRow evs) (remdups (map groupKey evs))"

text \<open>
  One proposed row: \<^verbatim>\<open>DO UPDATE SET\<close> on a conflict with an existing row, an insert
  otherwise.
\<close>

definition upsertSalesDaily ::
  "timestamp \<Rightarrow> sales_daily_key \<times> real \<times> real \<times> nat \<Rightarrow>
   (sales_daily_key \<times> sales_daily_val) list \<Rightarrow> (sales_daily_key \<times> sales_daily_val) list" where
  "upsertSalesDaily now row tbl =
     (case row of (key, units, revenue, orders) \<Rightarrow>
        (case map_of tbl key of
           Some old \<Rightarrow>
             AList.update key
               (old\<lparr>sd_units := units, sd_revenue := revenue, sd_orders := orders,
                    sd_updated_at := now\<rparr>) tbl
         | None \<Rightarrow>
             tbl @ [(key, \<lparr>sd_units = units, sd_revenue = revenue, sd_orders = orders,
                           sd_updated_at = now\<rparr>)]))"

text \<open>
  \<^verbatim>\<open>rebuildSalesDaily({orgId, from, to})\<close>; \<open>today\<close> is the clock of the process, \<open>now\<close>
  the store's \<^verbatim>\<open>now()\<close>. The result is paired with the store after the call; a failed
  statement leaves the store as it was.
\<close>

definition rebuildSalesDaily ::
  "timestamp \<Rightarrow> timestamp \<Rightarrow> rebuild_options \<Rightarrow> db \<Rightarrow> (error + rebuild_result) \<times> db" where
  "rebuildSalesDaily today now opts d =
     (let fromDate = (case ro_from opts of None \<Rightarrow> dayOf (subDays today 90) | Some f \<Rightarrow> f);
          toDate = (case ro_to opts of None \<Rightarrow> dayOf today | Some t \<Rightarrow> t);
          rows = selectRows (eventsInRange d (ro_orgId opts) fromDate toDate)
      in if \<not> distinct (map fst rows) then (Inl CardinalityViolation, d)
         else (Inr \<lparr>res_from = fromDate, res_to = toDate\<rparr>,
               d\<lparr>sales_daily := fold (upsertSalesDaily now) rows (sales_daily d)\<rparr>))"

text \<open>The columns that \<open>upsertSalesDaily\<close> writes for a proposed row.\<close>

definition rollupVal :: "timestamp \<Rightarrow> sales_daily_key \<times> real \<times> real \<times> nat \<Rightarrow> sales_daily_val" where
  "rollupVal now row =
     (case row of (key, units, revenue, orders) \<Rightarrow>
        \<lparr>sd_units = units, sd_revenue = revenue, sd_orders = orders, sd_updated_at = now\<rparr>)"

text \<open>The applied range of a call: the given bounds, else the last 90 days up to today.\<close>

definition rangeFrom :: "timestamp \<Rightarrow> rebuild_options \<Rightarrow> int" where
  "rangeFrom today opts = (case ro_from opts of None \<Rightarrow> dayOf (subDays today 90) | Some f \<Rightarrow> f)"

definition rangeTo :: "timestamp \<Rightarrow> rebuild_options \<Rightarrow> int" where
  "rangeTo today opts = (case ro_to opts of None \<Rightarrow> dayOf today | Some t \<Rightarrow> t)"

text \<open>The columns of a rollup row that the specification names: units, revenue, orders.\<close>

definition rollupValues ::
  "(sales_daily_key \<times> sales_daily_val) list \<Rightarrow> (sales_daily_key \<times> real \<times> real \<times> nat) list" where
  "rollupValues tbl = map (\<lambda>r. (fst r, sd_units (snd r), sd_revenue (snd r), sd_orders (snd r))) tbl"

section \<open>KPI calculator (\<^verbatim>\<open>modules/kpi/service.ts\<close>)\<close>








section \<open>A concrete store\<close>

text \<open>
  One organisation and one warehouse: SKU \<open>X\<close> sold on two days, has a stale buffer and
  two stock batches on day 100; SKU \<open>Y\<close> has a buffer and no sales; SKU \<open>Z\<close> has a stock
  snapshot on day 110, a lead-time statistic and no buffer.
\<close>

definition exampleDb :: db where
  "exampleDb =
     \<lparr>sales_events =
        [\<lparr>se_org_id = ''o1'', se_order_id = ''A1'', se_line_id = ''1'',
          se_order_datetime = 100 * MS_PER_DAY + 3600000, se_sku = ''X'', se_qty = 10,
          se_net_amount = Some 100, se_warehouse_id = Some ''W'', se_channel = None\<rparr>,
         \<lparr>se_org_id = ''o1'', se_order_id = ''A1'', se_line_id = ''2'',
          se_order_datetime = 100 * MS_PER_DAY + 3600000, se_sku = ''X'', se_qty = 20,
          se_net_amount = Some 200, se_warehouse_id = Some ''W'', se_channel = None\<rparr>,
         \<lparr>se_org_id = ''o1'', se_order_id = ''A2'', se_line_id = ''1'',
          se_order_datetime = 110 * MS_PER_DAY + 7200000, se_sku = ''X'', se_qty = 30,
          se_net_amount = None, se_warehouse_id = Some ''W'', se_channel = None\<rparr>],
      sales_daily =
        [(\<lparr>sd_org_id = ''o1'', sd_date = 100 * MS_PER_DAY, sd_sku = ''X'', sd_warehouse_id = ''W'',
           sd_channel = ''ALL''\<rparr>,
          \<lparr>sd_units = 30, sd_revenue = 300, sd_orders = 2, sd_updated_at = 0\<rparr>),
         (\<lparr>sd_org_id = ''o1'', sd_date = 110 * MS_PER_DAY, sd_sku = ''X'', sd_warehouse_id = ''W'',
           sd_channel = ''ALL''\<rparr>,
          \<lparr>sd_units = 30, sd_revenue = 300, sd_orders = 1, sd_updated_at = 0\<rparr>)],
      stock_snapshots =
        [\<lparr>ss_org_id = ''o1'', ss_date = 100 * MS_PER_DAY, ss_sku = ''X'', ss_warehouse_id = ''W'',
          ss_qty_on_hand = 5, ss_batch_id = ''b1'', ss_expiry_date = None\<rparr>,
         \<lparr>ss_org_id = ''o1'', ss_date = 100 * MS_PER_DAY, ss_sku = ''X'', ss_warehouse_id = ''W'',
          ss_qty_on_hand = 7, ss_batch_id = ''b2'', ss_expiry_date = Some (130 * MS_PER_DAY)\<rparr>,
         \<lparr>ss_org_id = ''o1'', ss_date = 110 * MS_PER_DAY, ss_sku = ''Z'', ss_warehouse_id = ''W'',
          ss_qty_on_hand = 9, ss_batch_id = ''b1'', ss_expiry_date = None\<rparr>],
      buffers =
        [(\<lparr>b_org_id = ''o1'', b_sku = ''X'', b_warehouse_id = ''W''\<rparr>,
          \<lparr>lead_time_days = 14, avg_daily_demand = 2, buffer_qty = 40, red_th = 10,
           yellow_th = 20, updated_at = 0\<rparr>),
         (\<lparr>b_org_id = ''o1'', b_sku = ''Y'', b_warehouse_id = ''W''\<rparr>,
          \<lparr>lead_time_days = 5, avg_daily_demand = 4, buffer_qty = 24, red_th = 8,
           yellow_th = 16, updated_at = 0\<rparr>)],
      catalog = [],
      lead_time_stats =
        [\<lparr>lt_org_id = ''o1'', lt_supplier_id = ''S1'', lt_sku = ''Z'',
          lead_time_days_median = 9\<rparr>]\<rparr>"

definition exampleNow :: timestamp where
  "exampleNow = 120 * MS_PER_DAY"

text \<open>
  A rebuild of the rollups of days 105 to 115, a KPI request for SKU \<open>X\<close> and one for
  SKU \<open>Y\<close> over the default window, two recommendation requests without recalculation, for day 105 and for
  day 115, and the request for day 105 with the default options.
\<close>

definition exampleRebuild :: rebuild_options where
  "exampleRebuild = \<lparr>ro_orgId = ''o1'', ro_from = Some 105, ro_to = Some 115\<rparr>"



definition exampleInput :: recommendation_input where
  "exampleInput =
     \<lparr>in_orgId = ''o1'', in_warehouseId = ''W'', in_date = 105 * MS_PER_DAY + 5,
      in_autoRecalc = Some False, in_page = None, in_pageSize = None\<rparr>"

definition exampleInputLate :: recommendation_input where
  "exampleInputLate =
     \<lparr>in_orgId = ''o1'', in_warehouseId = ''W'', in_date = 115 * MS_PER_DAY + 5,
      in_autoRecalc = Some False, in_page = None, in_pageSize = None\<rparr>"

definition exampleInputDefault :: recommendation_input where
  "exampleInputDefault =
     \<lparr>in_orgId = ''o1'', in_warehouseId = ''W'', in_date = 105 * MS_PER_DAY + 5,
      in_autoRecalc = None, in_page = None, in_pageSize = None\<rparr>"

section \<open>Auxiliary facts: association lists and the buffer upsert\<close>

lemma update_append_new: "map_of al k = None \<Longrightarrow> AList.update k v al = al @ [(k, v)]"
  by (induction al) (auto split: if_splits)

lemma buffer_val_overwrite:
  "(old :: buffer_val)\<lparr>lead_time_days := a, avg_daily_demand := b, buffer_qty := c, red_th := e,
        yellow_th := f, updated_at := g\<rparr>
   = \<lparr>lead_time_days = a, avg_daily_demand = b, buffer_qty = c, red_th = e,
      yellow_th = f, updated_at = g\<rparr>"
  by (cases old) simp

lemma upsertBuffer_update:
  "upsertBuffer now orgId wh row tbl =
     AList.update (bufferKey orgId wh (fst row)) (bufferFor now (snd row)) tbl"
  by (cases "map_of tbl (bufferKey orgId wh (fst row))")
     (simp_all add: upsertBuffer_def bufferKey_def bufferFor_def Let_def update_append_new
        buffer_val_overwrite)

lemma fold_upsert_other:
  "k \<notin> (\<lambda>r. bufferKey orgId wh (fst r)) ` set rows \<Longrightarrow>
   map_of (fold (upsertBuffer now orgId wh) rows tbl) k = map_of tbl k"
  by (induction rows arbitrary: tbl) (auto simp: upsertBuffer_update update_conv')

lemma fold_upsert_hit:
  "distinct (map fst rows) \<Longrightarrow> r \<in> set rows \<Longrightarrow>
   map_of (fold (upsertBuffer now orgId wh) rows tbl) (bufferKey orgId wh (fst r))
     = Some (bufferFor now (snd r))"
proof (induction rows arbitrary: tbl)
  case Nil
  then show ?case by simp
next
  case (Cons x xs)
  show ?case
  proof (cases "r = x")
    case True
    have "bufferKey orgId wh (fst x) \<notin> (\<lambda>r. bufferKey orgId wh (fst r)) ` set xs"
      using Cons.prems(1) by (auto simp: bufferKey_def)
    then have "map_of (fold (upsertBuffer now orgId wh) xs (upsertBuffer now orgId wh x tbl))
                 (bufferKey orgId wh (fst x))
               = map_of (upsertBuffer now orgId wh x tbl) (bufferKey orgId wh (fst x))"
      by (rule fold_upsert_other)
    also have "\<dots> = Some (bufferFor now (snd x))"
      by (simp add: upsertBuffer_update update_conv')
    finally show ?thesis using True by simp
  next
    case False
    then show ?thesis using Cons by simp
  qed
qed

lemma demandRows_distinct: "distinct (map fst (demandRows d orgId wh since))"
  by (simp add: demandRows_def Let_def comp_def)

lemma demandRows_fst:
  "fst ` set (demandRows d orgId wh since)
   = (\<lambda>r. sd_sku (fst r)) ` set (windowRows d orgId wh since)"
  by (simp add: demandRows_def Let_def image_image)

lemma demandRows_mem:
  "s \<in> (\<lambda>r. sd_sku (fst r)) ` set (windowRows d orgId wh since) \<Longrightarrow>
   (s, sql_avg (skuUnits (windowRows d orgId wh since) s)) \<in> set (demandRows d orgId wh since)"
  by (auto simp add: demandRows_def Let_def)

lemma demandRows_empty:
  "(demandRows d orgId wh since = []) = (windowRows d orgId wh since = [])"
  by (auto simp add: demandRows_def Let_def)

lemma recalcBuffers_lookup_hit:
  assumes "s \<in> (\<lambda>r. sd_sku (fst r)) ` set (windowRows d orgId wh (subDays now (lookbackOf lb)))"
  shows "map_of (buffers (snd (recalcBuffers now orgId wh lb d))) (bufferKey orgId wh s)
         = Some (bufferFor now
                  (sql_avg (skuUnits (windowRows d orgId wh (subDays now (lookbackOf lb))) s)))"
proof -
  let ?since = "subDays now (lookbackOf lb)"
  let ?rows = "demandRows d orgId wh ?since"
  let ?r = "(s, sql_avg (skuUnits (windowRows d orgId wh ?since) s))"
  have mem: "?r \<in> set ?rows" using assms by (rule demandRows_mem)
  then have ne: "?rows \<noteq> []" by auto
  have "map_of (fold (upsertBuffer now orgId wh) ?rows (buffers d)) (bufferKey orgId wh (fst ?r))
        = Some (bufferFor now (snd ?r))"
    using demandRows_distinct mem by (rule fold_upsert_hit)
  then show ?thesis using ne
    by (simp add: recalcBuffers_def Let_def)
qed

lemma recalcBuffers_lookup_miss:
  assumes "b_org_id k \<noteq> orgId \<or> b_warehouse_id k \<noteq> wh
           \<or> b_sku k \<notin> (\<lambda>r. sd_sku (fst r)) `
                          set (windowRows d orgId wh (subDays now (lookbackOf lb)))"
  shows "map_of (buffers (snd (recalcBuffers now orgId wh lb d))) k = map_of (buffers d) k"
proof -
  let ?since = "subDays now (lookbackOf lb)"
  let ?rows = "demandRows d orgId wh ?since"
  have "k \<notin> (\<lambda>r. bufferKey orgId wh (fst r)) ` set ?rows"
  proof
    assume "k \<in> (\<lambda>r. bufferKey orgId wh (fst r)) ` set ?rows"
    then obtain r where r: "r \<in> set ?rows" "k = bufferKey orgId wh (fst r)" by auto
    then have "fst r \<in> fst ` set ?rows" by auto
    then have "fst r \<in> (\<lambda>r. sd_sku (fst r)) ` set (windowRows d orgId wh ?since)"
      by (simp only: demandRows_fst)
    with r(2) assms show False by (auto simp: bufferKey_def)
  qed
  then have "map_of (fold (upsertBuffer now orgId wh) ?rows (buffers d)) k = map_of (buffers d) k"
    by (rule fold_upsert_other)
  then show ?thesis
    by (simp add: recalcBuffers_def Let_def)
qed

lemma recalcBuffers_noop:
  assumes "windowRows d orgId wh (subDays now (lookbackOf lb)) = []"
  shows "recalcBuffers now orgId wh lb d = (\<lparr>updated = 0\<rparr>, d)"
  using assms by (simp add: recalcBuffers_def Let_def demandRows_empty)

lemma skuUnits_nonempty:
  "s \<in> (\<lambda>r. sd_sku (fst r)) ` set rows \<Longrightarrow> skuUnits rows s \<noteq> []"
  by (auto simp: skuUnits_def filter_empty_conv)

subsection \<open>The concrete store\<close>

lemma exampleDb_window:
  "windowRows exampleDb ''o1'' ''W'' (subDays exampleNow (lookbackOf None)) = sales_daily exampleDb"
  by (simp add: windowRows_def exampleDb_def exampleNow_def subDays_def MS_PER_DAY_def
      lookbackOf_def)

lemma exampleDb_recalc:
  "recalcBuffers exampleNow ''o1'' ''W'' None exampleDb =
    (\<lparr>updated = 1\<rparr>,
     exampleDb\<lparr>buffers :=
        [(\<lparr>b_org_id = ''o1'', b_sku = ''X'', b_warehouse_id = ''W''\<rparr>,
          \<lparr>lead_time_days = 7, avg_daily_demand = 30, buffer_qty = 252, red_th = 84,
           yellow_th = 168, updated_at = exampleNow\<rparr>),
         (\<lparr>b_org_id = ''o1'', b_sku = ''Y'', b_warehouse_id = ''W''\<rparr>,
          \<lparr>lead_time_days = 5, avg_daily_demand = 4, buffer_qty = 24, red_th = 8,
           yellow_th = 16, updated_at = 0\<rparr>)]\<rparr>)"
  by (simp add: recalcBuffers_def demandRows_def exampleDb_window Let_def)
     (simp add: exampleDb_def skuUnits_def sql_avg_def upsertBuffer_def orZero_def
        DEFAULT_LEAD_TIME_DAYS_def BUFFER_FACTOR_def)

lemma exampleDb_skus:
  "(\<lambda>r. sd_sku (fst r)) ` set (windowRows exampleDb ''o1'' ''W'' (subDays exampleNow (lookbackOf None)))
   = {''X''}"
  by (simp add: exampleDb_window) (simp add: exampleDb_def)

lemma exampleDb_units:
  "skuUnits (windowRows exampleDb ''o1'' ''W'' (subDays exampleNow (lookbackOf None))) ''X'' = [30, 30]"
  by (simp add: exampleDb_window) (simp add: exampleDb_def skuUnits_def)

lemma exampleDb_window_other:
  "windowRows exampleDb ''o2'' ''W'' (subDays exampleNow (lookbackOf None)) = []"
  by (simp add: windowRows_def exampleDb_def)

section \<open>Buffer engine: thresholds and zones\<close>



section \<open>Buffer engine: what a recalculation leaves alone\<close>

text \<open>
  Claim C8. \<open>recalcBuffers\<close> leaves the buffer row of every SKU without a rollup row of
  the warehouse in the look-back window as it was (and so every row of another
  organisation or warehouse); when no SKU has such a rollup row it writes nothing and
  returns \<open>updated = 0\<close>. No other table is written. The window is the one of the
  code, \<open>date \<ge> now - lookbackDays\<close>.
\<close>

theorem recalcBuffers_frame:
  "(b_org_id k \<noteq> org \<or> b_warehouse_id k \<noteq> wh
      \<or> b_sku k \<notin> (\<lambda>r. sd_sku (fst r)) ` set (windowRows d org wh (subDays now (lookbackOf lb)))
     \<longrightarrow> map_of (buffers (snd (recalcBuffers now org wh lb d))) k = map_of (buffers d) k)
   \<and> (windowRows d org wh (subDays now (lookbackOf lb)) = []
     \<longrightarrow> recalcBuffers now org wh lb d = (\<lparr>updated = 0\<rparr>, d))
   \<and> (snd (recalcBuffers now org wh lb d))\<lparr>buffers := buffers d\<rparr> = d"
proof -
  have rest: "(snd (recalcBuffers now org wh lb d))\<lparr>buffers := buffers d\<rparr> = d"
    by (simp add: recalcBuffers_def Let_def)
  show ?thesis
    using recalcBuffers_lookup_miss [of k org wh d now lb] recalcBuffers_noop [of d org wh now lb]
      rest
    by blast
qed

theorem recalcBuffers_frame_witness:
  "''Y'' \<notin> (\<lambda>r. sd_sku (fst r)) `
              set (windowRows exampleDb ''o1'' ''W'' (subDays exampleNow (lookbackOf None)))
   \<and> map_of (buffers (snd (recalcBuffers exampleNow ''o1'' ''W'' None exampleDb)))
        (bufferKey ''o1'' ''W'' ''Y'')
      = Some \<lparr>lead_time_days = 5, avg_daily_demand = 4, buffer_qty = 24, red_th = 8,
               yellow_th = 16, updated_at = 0\<rparr>
   \<and> windowRows exampleDb ''o2'' ''W'' (subDays exampleNow (lookbackOf None)) = []
   \<and> recalcBuffers exampleNow ''o2'' ''W'' None exampleDb = (\<lparr>updated = 0\<rparr>, exampleDb)"
proof -
  have notin: "''Y'' \<notin> (\<lambda>r. sd_sku (fst r)) `
                 set (windowRows exampleDb ''o1'' ''W'' (subDays exampleNow (lookbackOf None)))"
    by (simp add: exampleDb_skus)
  have before: "map_of (buffers exampleDb) (bufferKey ''o1'' ''W'' ''Y'')
      = Some \<lparr>lead_time_days = 5, avg_daily_demand = 4, buffer_qty = 24, red_th = 8,
               yellow_th = 16, updated_at = 0\<rparr>"
    by (simp add: exampleDb_def bufferKey_def)
  have same: "map_of (buffers (snd (recalcBuffers exampleNow ''o1'' ''W'' None exampleDb)))
        (bufferKey ''o1'' ''W'' ''Y'') = map_of (buffers exampleDb) (bufferKey ''o1'' ''W'' ''Y'')"
    using recalcBuffers_frame [of "bufferKey ''o1'' ''W'' ''Y''" "''o1''" "''W''" exampleDb
        exampleNow None] notin
    by (simp add: bufferKey_def)
  have noop: "recalcBuffers exampleNow ''o2'' ''W'' None exampleDb = (\<lparr>updated = 0\<rparr>, exampleDb)"
    using recalcBuffers_frame [of "bufferKey ''o2'' ''W'' ''X''" "''o2''" "''W''" exampleDb exampleNow None]
      exampleDb_window_other by blast
  show ?thesis using notin before same noop exampleDb_window_other by simp
qed

section \<open>Buffer engine: average daily demand\<close>

text \<open>
  Claim C1, as stated, asks for the sum of the units over the number of days of the
  window. In the concrete store SKU \<open>X\<close> has two rollup rows of 30 units in the 60-day
  window: the recalculation writes 30, not 60 / 60.
\<close>

theorem zero_fill_counterexample:
  "skuUnits (windowRows exampleDb ''o1'' ''W'' (subDays exampleNow 60)) ''X'' = [30, 30]
   \<and> map_option avg_daily_demand
        (map_of (buffers (snd (recalcBuffers exampleNow ''o1'' ''W'' (Some 60) exampleDb)))
           (bufferKey ''o1'' ''W'' ''X''))
      = Some 30
   \<and> map_option avg_daily_demand
        (map_of (buffers (snd (recalcBuffers exampleNow ''o1'' ''W'' (Some 60) exampleDb)))
           (bufferKey ''o1'' ''W'' ''X''))
      \<noteq> Some (sum_list (skuUnits (windowRows exampleDb ''o1'' ''W'' (subDays exampleNow 60)) ''X'')
                / 60)"
proof -
  have u: "skuUnits (windowRows exampleDb ''o1'' ''W'' (subDays exampleNow 60)) ''X'' = [30, 30]"
    using exampleDb_units by (simp add: lookbackOf_def)
  have r: "recalcBuffers exampleNow ''o1'' ''W'' (Some 60) exampleDb
           = recalcBuffers exampleNow ''o1'' ''W'' None exampleDb"
    by (simp add: recalcBuffers_def lookbackOf_def)
  have a: "map_option avg_daily_demand
        (map_of (buffers (snd (recalcBuffers exampleNow ''o1'' ''W'' (Some 60) exampleDb)))
           (bufferKey ''o1'' ''W'' ''X'')) = Some 30"
    unfolding r by (simp add: exampleDb_recalc bufferKey_def)
  show ?thesis unfolding a u by simp
qed

text \<open>
  Claim C1, amended. For every SKU with a rollup row in the window, the average daily
  demand that \<open>recalcBuffers\<close> writes is the sum of the units of the SKU's rollup rows in
  the window divided by the number of those rows (the aggregate \<^verbatim>\<open>_avg\<close>): days without a
  row do not count.
\<close>

theorem avg_daily_demand_over_rows:
  assumes "s \<in> (\<lambda>r. sd_sku (fst r)) ` set (windowRows d org wh (subDays now (lookbackOf lb)))"
  shows "map_option avg_daily_demand
           (map_of (buffers (snd (recalcBuffers now org wh lb d))) (bufferKey org wh s))
         = Some (sum_list (skuUnits (windowRows d org wh (subDays now (lookbackOf lb))) s)
                 / real (length (skuUnits (windowRows d org wh (subDays now (lookbackOf lb))) s)))"
proof -
  have "skuUnits (windowRows d org wh (subDays now (lookbackOf lb))) s \<noteq> []"
    using assms by (rule skuUnits_nonempty)
  then show ?thesis
    by (simp add: recalcBuffers_lookup_hit [OF assms] bufferFor_def sql_avg_def orZero_def)
qed

theorem avg_daily_demand_over_rows_witness:
  "''X'' \<in> (\<lambda>r. sd_sku (fst r)) `
            set (windowRows exampleDb ''o1'' ''W'' (subDays exampleNow (lookbackOf None)))
   \<and> map_option avg_daily_demand
        (map_of (buffers (snd (recalcBuffers exampleNow ''o1'' ''W'' None exampleDb)))
           (bufferKey ''o1'' ''W'' ''X''))
      = Some ((30 + 30) / 2)"
proof -
  have mem: "''X'' \<in> (\<lambda>r. sd_sku (fst r)) `
            set (windowRows exampleDb ''o1'' ''W'' (subDays exampleNow (lookbackOf None)))"
    by (simp add: exampleDb_skus)
  show ?thesis
    using mem avg_daily_demand_over_rows [OF mem] by (simp add: exampleDb_units)
qed

section \<open>Lead time\<close>




section \<open>Auxiliary facts: the recommendation engine\<close>





lemma recalcBuffers_other_tables:
  "(snd (recalcBuffers now org wh lb d))\<lparr>buffers := buffers d\<rparr> = d"
  by (simp add: recalcBuffers_def Let_def)

lemma recalcBuffers_stock:
  "stock_snapshots (snd (recalcBuffers now org wh lb d)) = stock_snapshots d"
  by (simp add: recalcBuffers_def Let_def)

lemma getRecommendations_stock:
  "stock_snapshots (snd (getRecommendations now inp d)) = stock_snapshots d"
  by (simp add: getRecommendations_def Let_def recalcBuffers_stock)

lemma getRecommendations_read:
  "fst (getRecommendations now inp d) = readRecommendations inp (snd (getRecommendations now inp d))"
  by (simp add: getRecommendations_def Let_def)

lemma stockInRange_cong:
  "stock_snapshots d' = stock_snapshots d \<Longrightarrow>
   stockInRange d' org wh skus a b = stockInRange d org wh skus a b"
  by (simp add: stockInRange_def)

lemma fallbackDate_cong:
  "stock_snapshots d' = stock_snapshots d \<Longrightarrow> fallbackDate d' org wh e = fallbackDate d org wh e"
  by (simp add: fallbackDate_def)

lemma readRecommendations_unfold:
  "readRecommendations inp d =
     (if pageBuffers inp d = []
      then \<lparr>data = [], total_rows = total_rows (readRecommendations inp d), effectiveDate = None\<rparr>
      else \<lparr>data = map (recommendationFor
                (jsMap (map (\<lambda>r. (fst r, orZero (snd r)))
                   (fst (resolveStock d (in_orgId inp) (in_warehouseId inp)
                          (map bi_sku (pageBuffers inp d)) (startOfDay (in_date inp))))))
                (jsMap (map (\<lambda>c. (c_sku c, (c_category c, c_name c)))
                   (filter (\<lambda>c. c_org_id c = in_orgId inp
                                \<and> c_sku c \<in> set (map bi_sku (pageBuffers inp d))) (catalog d)))))
              (pageBuffers inp d),
            total_rows = total_rows (readRecommendations inp d),
            effectiveDate = snd (resolveStock d (in_orgId inp) (in_warehouseId inp)
                          (map bi_sku (pageBuffers inp d)) (startOfDay (in_date inp)))\<rparr>)"
  by (simp add: readRecommendations_def pageBuffers_def Let_def split: prod.splits)

lemma rec_sku_recommendationFor [simp]: "rec_sku (recommendationFor sm cm b) = bi_sku b"
  by (simp add: recommendationFor_def Let_def)

lemma rec_onHand_recommendationFor:
  "rec_onHand (recommendationFor sm cm b)
   = roundNumber (case sm (bi_sku b) of None \<Rightarrow> 0 | Some q \<Rightarrow> q) 1"
  by (simp add: recommendationFor_def Let_def)

lemma readRecommendations_skus:
  "map rec_sku (data (readRecommendations inp d)) = map bi_sku (pageBuffers inp d)"
  by (subst readRecommendations_unfold) (simp add: comp_def)

lemma fetchStockRows_empty:
  "(fetchStockRows d org wh skus a b = []) = (stockInRange d org wh skus a b = [])"
  by (auto simp: fetchStockRows_def Let_def stockInRange_def)

lemma stockInRange_single:
  "s \<in> set skus \<Longrightarrow>
   filter (\<lambda>r. ss_sku r = s) (stockInRange d org wh skus a b) = stockInRange d org wh [s] a b"
  by (auto simp: stockInRange_def intro: filter_cong)

lemma stockMap_lookup:
  assumes "s \<in> set skus"
  shows "(case jsMap (map (\<lambda>r. (fst r, orZero (snd r))) (fetchStockRows d org wh skus a b)) s of
            None \<Rightarrow> 0 | Some q \<Rightarrow> q)
         = sum_list (map ss_qty_on_hand (stockInRange d org wh [s] a b))"
proof -
  let ?rows = "stockInRange d org wh skus a b"
  let ?f = "\<lambda>s. orZero (sql_sum (map ss_qty_on_hand (filter (\<lambda>r. ss_sku r = s) ?rows)))"
  let ?ps = "map (\<lambda>s. (s, ?f s)) (remdups (map ss_sku ?rows))"
  have ne: "skus \<noteq> []" using assms by auto
  have ps: "map (\<lambda>r. (fst r, orZero (snd r))) (fetchStockRows d org wh skus a b) = ?ps"
    using ne by (simp add: fetchStockRows_def Let_def comp_def)
  have d: "distinct (map fst ?ps)" by (simp add: comp_def)
  have "map_of (rev ?ps) = map_of ?ps"
    using d by (subst map_of_inject_set) (simp_all add: rev_map [symmetric])
  then have look: "jsMap ?ps s = (if s \<in> ss_sku ` set ?rows then Some (?f s) else None)"
    by (simp add: jsMap_def map_of_map_restrict restrict_map_def)
  show ?thesis
  proof (cases "s \<in> ss_sku ` set ?rows")
    case True
    then have "filter (\<lambda>r. ss_sku r = s) ?rows \<noteq> []"
      by (auto simp: filter_empty_conv)
    then show ?thesis
      using True look ps stockInRange_single [OF assms, of d org wh a b]
      by (simp add: sql_sum_def orZero_def)
  next
    case False
    then have "filter (\<lambda>r. ss_sku r = s) ?rows = []"
      by (auto simp: filter_empty_conv)
    then show ?thesis
      using False look ps stockInRange_single [OF assms, of d org wh a b]
      by simp
  qed
qed

lemma resolveStock_fallback:
  assumes "stockInRange d org wh skus dayStart (addDays dayStart 1) = []"
      and "fallbackDate d org wh (addDays dayStart 1) = Some m"
  shows "resolveStock d org wh skus dayStart
         = (fetchStockRows d org wh skus (startOfDay m) (addDays (startOfDay m) 1),
            if stockInRange d org wh skus (startOfDay m) (addDays (startOfDay m) 1) = []
            then None else Some (startOfDay m))"
  using assms by (simp add: resolveStock_def Let_def fetchStockRows_empty)

subsection \<open>The concrete store\<close>

lemma exampleDb_page:
  "pageBuffers inp exampleDb = map mapBuffer (buffers exampleDb)"
  if "in_orgId inp = ''o1''" "in_warehouseId inp = ''W''" "in_page inp = None" "in_pageSize inp = None"
  using that by (simp add: pageBuffers_def listBuffersPage_def exampleDb_def Let_def)

lemma exampleDb_total:
  "total_rows (readRecommendations inp exampleDb) = 2"
  if "in_orgId inp = ''o1''" "in_warehouseId inp = ''W''" "in_page inp = None" "in_pageSize inp = None"
  using that
  by (simp add: readRecommendations_def listBuffersPage_def exampleDb_def Let_def split: prod.splits)

lemma exampleDb_read:
  "readRecommendations exampleInput exampleDb =
   \<lparr>data =
    [\<lparr>rec_sku = ''X'', rec_category = None, rec_name = ''X'',
        rec_segment = SegC, rec_zone = Yellow, rec_target = 40,
        rec_onHand = 12, rec_inbound = 0, rec_suggestedQty = 28,
        rec_reason = ReasonYellow, rec_overstock = None,
        rec_avgDailyDemand = 2, rec_leadTimeDays = 14,
        rec_daysOfSupply = Some 6, rec_bufferPenetration = Some (3 / 10),
        rec_monthlyDemand = 60\<rparr>,
     \<lparr>rec_sku = ''Y'', rec_category = None, rec_name = ''Y'',
        rec_segment = SegC, rec_zone = Red, rec_target = 24, rec_onHand = 0,
        rec_inbound = 0, rec_suggestedQty = 24, rec_reason = ReasonRed,
        rec_overstock = None, rec_avgDailyDemand = 4, rec_leadTimeDays = 5,
        rec_daysOfSupply = Some 0, rec_bufferPenetration = Some 0,
        rec_monthlyDemand = 120\<rparr>],
    total_rows = 2, effectiveDate = Some (100 * MS_PER_DAY)\<rparr>"
  apply (subst readRecommendations_unfold)
  apply (simp add: exampleDb_page exampleDb_total exampleInput_def)
  apply (simp add: exampleDb_def mapBuffer_def resolveStock_def fetchStockRows_def stockInRange_def
     fallbackDate_def startOfDay_def addDays_def MS_PER_DAY_def sql_sum_def Let_def jsMap_def orZero_def
     recommendationFor_def resolveZone_def roundNumber_def jsRound_def classifySegment_def detectOverstock_def)
  done

lemma exampleDb_read_late:
  "readRecommendations exampleInputLate exampleDb =
   \<lparr>data =
    [\<lparr>rec_sku = ''X'', rec_category = None, rec_name = ''X'',
        rec_segment = SegC, rec_zone = Red, rec_target = 40, rec_onHand = 0,
        rec_inbound = 0, rec_suggestedQty = 40, rec_reason = ReasonRed,
        rec_overstock = None, rec_avgDailyDemand = 2, rec_leadTimeDays = 14,
        rec_daysOfSupply = Some 0, rec_bufferPenetration = Some 0,
        rec_monthlyDemand = 60\<rparr>,
     \<lparr>rec_sku = ''Y'', rec_category = None, rec_name = ''Y'',
        rec_segment = SegC, rec_zone = Red, rec_target = 24, rec_onHand = 0,
        rec_inbound = 0, rec_suggestedQty = 24, rec_reason = ReasonRed,
        rec_overstock = None, rec_avgDailyDemand = 4, rec_leadTimeDays = 5,
        rec_daysOfSupply = Some 0, rec_bufferPenetration = Some 0,
        rec_monthlyDemand = 120\<rparr>],
    total_rows = 2, effectiveDate = None\<rparr>"
  apply (subst readRecommendations_unfold)
  apply (simp add: exampleDb_page exampleDb_total exampleInputLate_def)
  apply (simp add: exampleDb_def mapBuffer_def resolveStock_def fetchStockRows_def stockInRange_def
     fallbackDate_def startOfDay_def addDays_def MS_PER_DAY_def sql_sum_def Let_def jsMap_def orZero_def
     recommendationFor_def resolveZone_def roundNumber_def jsRound_def classifySegment_def detectOverstock_def)
  done

lemma exampleDb_read_default:
  "map rec_target
     (data (readRecommendations exampleInputDefault
        (snd (recalcBuffers exampleNow ''o1'' ''W'' None exampleDb))))
   = [252, 24]"
  apply (subst readRecommendations_unfold)
  apply (simp add: exampleDb_recalc pageBuffers_def listBuffersPage_def exampleInputDefault_def Let_def)
  apply (simp add: mapBuffer_def recommendationFor_def Let_def roundNumber_def jsRound_def)
  done

lemma exampleDb_get:
  "getRecommendations exampleNow exampleInput exampleDb
   = (readRecommendations exampleInput exampleDb, exampleDb)"
proof -
  have "in_autoRecalc exampleInput = Some False" by (simp add: exampleInput_def)
  then show ?thesis by (simp add: getRecommendations_def)
qed

section \<open>Recommendation engine: suggested quantity\<close>



section \<open>Recommendation engine: overstock\<close>

text \<open>
  Claim C5, as stated, expects a ratio of about 1.21 for a demand of 10 a day and 400 on
  hand. The code reports 1.33, the on-hand quantity over the 30-day demand.
\<close>

theorem overstock_ratio_counterexample:
  "map_option ratio (detectOverstock 400 (Some 10)) = Some (133 / 100)
   \<and> (133 / 100 :: real) - 121 / 100 > 1 / 10"
  by (simp add: detectOverstock_def roundNumber_def jsRound_def Let_def)

text \<open>
  Claim C5, amended. The overstock signal is raised exactly when the average daily demand
  is positive and the on-hand quantity exceeds \<open>avg_daily_demand * 30 * 1.1\<close>; its
  ratio is the on-hand quantity over the 30-day demand, rounded to two decimals. For a
  demand of 10 and 400 on hand it is raised with ratio 1.33.
\<close>

theorem detectOverstock_exact:
  "detectOverstock onHand None = None
   \<and> (detectOverstock onHand (Some a) \<noteq> None) = (0 < a \<and> a * 30 * (11 / 10) < onHand)
   \<and> (0 < a \<and> a * 30 * (11 / 10) < onHand \<longrightarrow>
        detectOverstock onHand (Some a)
        = Some \<lparr>ratio = roundNumber (onHand / (a * 30)) 2,
                 message_pct = jsRound (onHand / (a * 30) * 100)\<rparr>)
   \<and> detectOverstock 400 (Some 10) = Some \<lparr>ratio = 133 / 100, message_pct = 133\<rparr>"
proof -
  have ex: "detectOverstock 400 (Some 10) = Some \<lparr>ratio = 133 / 100, message_pct = 133\<rparr>"
    by (simp add: detectOverstock_def roundNumber_def jsRound_def Let_def)
  have iff: "(onHand / (a * 30) \<le> 11 / 10) = (onHand \<le> a * 30 * (11 / 10))" if "0 < a"
    using that by (simp add: field_simps)
  show ?thesis
    using ex iff by (auto simp add: detectOverstock_def Let_def not_le)
qed

theorem detectOverstock_exact_witness:
  "(0::real) < 10 \<and> (10::real) * 30 * (11 / 10) < 400
   \<and> detectOverstock 400 (Some 10)
     = Some \<lparr>ratio = roundNumber (400 / (10 * 30)) 2, message_pct = jsRound (400 / (10 * 30) * 100)\<rparr>
   \<and> roundNumber (400 / (10 * 30)) 2 = 133 / 100"
  using detectOverstock_exact [of 400 10]
  by (simp add: roundNumber_def jsRound_def)

section \<open>Recommendation engine: the effective date\<close>

text \<open>
  Claim C6, as stated, expects the date of the SKU's own latest earlier snapshot. In the
  concrete store SKU \<open>X\<close> has no snapshot on day 115 and two batches on day 100, and
  the latest snapshot of the warehouse is the one of SKU \<open>Z\<close> on day 110, which is not
  on the page: the request for day 115 returns no effective date and 0 on hand for
  \<open>X\<close>.
\<close>

theorem fallback_per_sku_counterexample:
  "batchQtys exampleDb ''o1'' ''W'' ''X'' (startOfDay (in_date exampleInputLate)) = []
   \<and> batchQtys exampleDb ''o1'' ''W'' ''X'' (100 * MS_PER_DAY) = [5, 7]
   \<and> effectiveDate (fst (getRecommendations exampleNow exampleInputLate exampleDb)) = None
   \<and> map rec_sku (data (fst (getRecommendations exampleNow exampleInputLate exampleDb)))
      = [''X'', ''Y'']
   \<and> map rec_onHand (data (fst (getRecommendations exampleNow exampleInputLate exampleDb)))
      = [0, 0]"
proof -
  have g: "fst (getRecommendations exampleNow exampleInputLate exampleDb)
           = readRecommendations exampleInputLate exampleDb"
    by (simp add: getRecommendations_def exampleInputLate_def)
  have b1: "batchQtys exampleDb ''o1'' ''W'' ''X'' (startOfDay (in_date exampleInputLate)) = []"
    by (simp add: batchQtys_def stockInRange_def exampleDb_def exampleInputLate_def startOfDay_def
        addDays_def MS_PER_DAY_def)
  have b2: "batchQtys exampleDb ''o1'' ''W'' ''X'' (100 * MS_PER_DAY) = [5, 7]"
    by (simp add: batchQtys_def stockInRange_def exampleDb_def addDays_def MS_PER_DAY_def)
  show ?thesis unfolding g exampleDb_read_late using b1 b2 by simp
qed

text \<open>
  Claim C6, amended. When no SKU of the page has a snapshot on the requested day, the
  fallback date is the latest snapshot date of the warehouse over all SKUs. If it lies
  before the end of the requested day, the effective date is the start of that day when
  some SKU of the page has a snapshot on it and null otherwise, and the on-hand quantity
  of each row is the sum of the batch quantities of its SKU on that day, rounded to one
  decimal (0 for a SKU without a batch on it).
\<close>

theorem fallback_snapshot_date:
  assumes "page = fst (getRecommendations now inp d)"
      and "skus = map rec_sku (data page)"
      and "dayStart = startOfDay (in_date inp)"
      and "data page \<noteq> []"
      and "stockInRange d (in_orgId inp) (in_warehouseId inp) skus dayStart (addDays dayStart 1) = []"
      and "fallbackDate d (in_orgId inp) (in_warehouseId inp) (addDays dayStart 1) = Some m"
      and "m < addDays dayStart 1"
  shows "effectiveDate page
         = (if stockInRange d (in_orgId inp) (in_warehouseId inp) skus
                 (startOfDay m) (addDays (startOfDay m) 1) = []
            then None else Some (startOfDay m))
       \<and> (\<forall>r \<in> set (data page).
            rec_onHand r
            = roundNumber
                (sum_list (batchQtys d (in_orgId inp) (in_warehouseId inp) (rec_sku r) (startOfDay m)))
                1)"
proof -
  let ?d = "snd (getRecommendations now inp d)"
  let ?org = "in_orgId inp" and ?wh = "in_warehouseId inp"
  have st: "stock_snapshots ?d = stock_snapshots d" by (rule getRecommendations_stock)
  have page: "page = readRecommendations inp ?d"
    using assms(1) by (simp add: getRecommendations_read)
  have skus: "skus = map bi_sku (pageBuffers inp ?d)"
    using assms(2) page by (simp add: readRecommendations_skus)
  have ne: "pageBuffers inp ?d \<noteq> []"
    using assms(4) skus assms(2) by auto
  have rs: "resolveStock ?d ?org ?wh skus dayStart
         = (fetchStockRows ?d ?org ?wh skus (startOfDay m) (addDays (startOfDay m) 1),
            if stockInRange ?d ?org ?wh skus (startOfDay m) (addDays (startOfDay m) 1) = []
            then None else Some (startOfDay m))"
    using assms(5,6) by (intro resolveStock_fallback) (simp_all add: stockInRange_cong [OF st] fallbackDate_cong [OF st])
  have eff: "effectiveDate page = snd (resolveStock ?d ?org ?wh skus dayStart)"
    unfolding page by (subst readRecommendations_unfold) (simp add: ne skus assms(3))
  have dat: "data page = map (recommendationFor
                (jsMap (map (\<lambda>r. (fst r, orZero (snd r)))
                   (fst (resolveStock ?d ?org ?wh skus dayStart))))
                (jsMap (map (\<lambda>c. (c_sku c, (c_category c, c_name c)))
                   (filter (\<lambda>c. c_org_id c = ?org \<and> c_sku c \<in> set skus) (catalog ?d)))))
              (pageBuffers inp ?d)"
    unfolding page by (subst readRecommendations_unfold) (simp add: ne skus assms(3))
  have on: "rec_onHand r
            = roundNumber (sum_list (batchQtys d ?org ?wh (rec_sku r) (startOfDay m))) 1"
    if "r \<in> set (data page)" for r
  proof -
    from that dat obtain b where b: "b \<in> set (pageBuffers inp ?d)"
      and r: "r = recommendationFor
                (jsMap (map (\<lambda>r. (fst r, orZero (snd r)))
                   (fst (resolveStock ?d ?org ?wh skus dayStart))))
                (jsMap (map (\<lambda>c. (c_sku c, (c_category c, c_name c)))
                   (filter (\<lambda>c. c_org_id c = ?org \<and> c_sku c \<in> set skus) (catalog ?d)))) b"
      by auto
    have mem: "bi_sku b \<in> set skus" using b skus by simp
    show ?thesis
      unfolding r rec_onHand_recommendationFor rec_sku_recommendationFor rs fst_conv
        stockMap_lookup [OF mem] batchQtys_def
      by (simp add: stockInRange_cong [OF st])
  qed
  show ?thesis using eff rs on by (simp add: stockInRange_cong [OF st])
qed

theorem fallback_snapshot_date_witness:
  "data (fst (getRecommendations exampleNow exampleInput exampleDb)) \<noteq> []
   \<and> stockInRange exampleDb ''o1'' ''W'' [''X'', ''Y''] (105 * MS_PER_DAY) (106 * MS_PER_DAY) = []
   \<and> fallbackDate exampleDb ''o1'' ''W'' (106 * MS_PER_DAY) = Some (100 * MS_PER_DAY)
   \<and> 100 * MS_PER_DAY < 106 * MS_PER_DAY
   \<and> effectiveDate (fst (getRecommendations exampleNow exampleInput exampleDb))
     = Some (100 * MS_PER_DAY)
   \<and> map rec_onHand (data (fst (getRecommendations exampleNow exampleInput exampleDb)))
     = [roundNumber (sum_list (batchQtys exampleDb ''o1'' ''W'' ''X'' (100 * MS_PER_DAY))) 1,
        roundNumber (sum_list (batchQtys exampleDb ''o1'' ''W'' ''Y'' (100 * MS_PER_DAY))) 1]
   \<and> batchQtys exampleDb ''o1'' ''W'' ''X'' (100 * MS_PER_DAY) = [5, 7]"
proof -
  let ?page = "fst (getRecommendations exampleNow exampleInput exampleDb)"
  have g: "?page = readRecommendations exampleInput exampleDb"
    by (simp add: getRecommendations_def exampleInput_def)
  have skus: "map rec_sku (data ?page) = [''X'', ''Y'']"
    unfolding g exampleDb_read by simp
  have org: "in_orgId exampleInput = ''o1''" "in_warehouseId exampleInput = ''W''"
    by (simp_all add: exampleInput_def)
  have ds: "startOfDay (in_date exampleInput) = 105 * MS_PER_DAY"
    by (simp add: exampleInput_def startOfDay_def MS_PER_DAY_def)
  have de: "addDays (105 * MS_PER_DAY) 1 = 106 * MS_PER_DAY"
    by (simp add: addDays_def MS_PER_DAY_def)
  have sm: "startOfDay (100 * MS_PER_DAY) = 100 * MS_PER_DAY"
    by (simp add: startOfDay_def MS_PER_DAY_def)
  have h4: "data ?page \<noteq> []" unfolding g exampleDb_read by simp
  have h5: "stockInRange exampleDb ''o1'' ''W'' [''X'', ''Y''] (105 * MS_PER_DAY) (106 * MS_PER_DAY) = []"
    by (simp add: stockInRange_def exampleDb_def MS_PER_DAY_def)
  have h6: "fallbackDate exampleDb ''o1'' ''W'' (106 * MS_PER_DAY) = Some (100 * MS_PER_DAY)"
    by (simp add: fallbackDate_def exampleDb_def MS_PER_DAY_def)
  have h7: "100 * MS_PER_DAY < 106 * MS_PER_DAY" by (simp add: MS_PER_DAY_def)
  have fb: "stockInRange exampleDb ''o1'' ''W'' [''X'', ''Y''] (100 * MS_PER_DAY)
              (addDays (100 * MS_PER_DAY) 1) \<noteq> []"
    by (simp add: stockInRange_def exampleDb_def MS_PER_DAY_def addDays_def)
  have "effectiveDate ?page
         = (if stockInRange exampleDb (in_orgId exampleInput) (in_warehouseId exampleInput)
                 [''X'', ''Y''] (startOfDay (100 * MS_PER_DAY))
                 (addDays (startOfDay (100 * MS_PER_DAY)) 1) = []
            then None else Some (startOfDay (100 * MS_PER_DAY)))
       \<and> (\<forall>r \<in> set (data ?page).
            rec_onHand r
            = roundNumber
                (sum_list (batchQtys exampleDb (in_orgId exampleInput) (in_warehouseId exampleInput)
                   (rec_sku r) (startOfDay (100 * MS_PER_DAY)))) 1)"
    by (rule fallback_snapshot_date [OF refl skus [symmetric] ds [symmetric] h4])
       (simp_all add: org de h5 h6 h7)
  then have eff: "effectiveDate ?page = Some (100 * MS_PER_DAY)"
    and on: "\<forall>r \<in> set (data ?page).
            rec_onHand r
            = roundNumber (sum_list (batchQtys exampleDb ''o1'' ''W'' (rec_sku r) (100 * MS_PER_DAY))) 1"
    using fb by (simp_all add: org sm)
  have rows: "map rec_onHand (data ?page)
     = [roundNumber (sum_list (batchQtys exampleDb ''o1'' ''W'' ''X'' (100 * MS_PER_DAY))) 1,
        roundNumber (sum_list (batchQtys exampleDb ''o1'' ''W'' ''Y'' (100 * MS_PER_DAY))) 1]"
    using on unfolding g exampleDb_read by simp
  have b: "batchQtys exampleDb ''o1'' ''W'' ''X'' (100 * MS_PER_DAY) = [5, 7]"
    by (simp add: batchQtys_def stockInRange_def exampleDb_def addDays_def MS_PER_DAY_def)
  show ?thesis using h4 h5 h6 h7 eff rows b by simp
qed

section \<open>Recommendation engine: recalculation before reading\<close>

text \<open>
  Claim C10. Unless \<^verbatim>\<open>autoRecalc\<close> is given as false, \<open>getRecommendations\<close> first runs
  \<open>recalcBuffers\<close> for the organisation and the warehouse with the default look-back:
  the store it leaves is the recalculated one, every SKU with a rollup row in the window
  has its buffer row rewritten at the time of the call, and the page is read from the
  rewritten buffers. With \<^verbatim>\<open>autoRecalc = false\<close> the store is unchanged.
\<close>

theorem getRecommendations_autoRecalc:
  "(in_autoRecalc inp \<noteq> Some False \<longrightarrow>
      snd (getRecommendations now inp d)
        = snd (recalcBuffers now (in_orgId inp) (in_warehouseId inp) None d)
    \<and> fst (getRecommendations now inp d)
        = readRecommendations inp (snd (recalcBuffers now (in_orgId inp) (in_warehouseId inp) None d))
    \<and> (\<forall>s \<in> (\<lambda>r. sd_sku (fst r)) `
                set (windowRows d (in_orgId inp) (in_warehouseId inp) (subDays now 60)).
          map_option updated_at
            (map_of (buffers (snd (getRecommendations now inp d)))
               (bufferKey (in_orgId inp) (in_warehouseId inp) s)) = Some now))
   \<and> (in_autoRecalc inp = Some False \<longrightarrow>
        getRecommendations now inp d = (readRecommendations inp d, d))"
proof -
  have off: "getRecommendations now inp d = (readRecommendations inp d, d)"
    if "in_autoRecalc inp = Some False"
    using that by (simp add: getRecommendations_def)
  have on: "getRecommendations now inp d
            = (readRecommendations inp (snd (recalcBuffers now (in_orgId inp) (in_warehouseId inp) None d)),
               snd (recalcBuffers now (in_orgId inp) (in_warehouseId inp) None d))"
    if "in_autoRecalc inp \<noteq> Some False"
    using that by (cases "in_autoRecalc inp") (auto simp add: getRecommendations_def Let_def)
  have wr: "map_option updated_at
            (map_of (buffers (snd (recalcBuffers now (in_orgId inp) (in_warehouseId inp) None d)))
               (bufferKey (in_orgId inp) (in_warehouseId inp) s)) = Some now"
    if "s \<in> (\<lambda>r. sd_sku (fst r)) `
                set (windowRows d (in_orgId inp) (in_warehouseId inp) (subDays now 60))" for s
  proof -
    have "s \<in> (\<lambda>r. sd_sku (fst r)) `
                set (windowRows d (in_orgId inp) (in_warehouseId inp) (subDays now (lookbackOf None)))"
      using that by (simp add: lookbackOf_def)
    then show ?thesis
      by (simp add: recalcBuffers_lookup_hit bufferFor_def)
  qed
  show ?thesis using off on wr by simp
qed

theorem getRecommendations_autoRecalc_witness:
  "in_autoRecalc exampleInputDefault \<noteq> Some False
   \<and> ''X'' \<in> (\<lambda>r. sd_sku (fst r)) ` set (windowRows exampleDb ''o1'' ''W'' (subDays exampleNow 60))
   \<and> map_option updated_at
        (map_of (buffers (snd (getRecommendations exampleNow exampleInputDefault exampleDb)))
           (bufferKey ''o1'' ''W'' ''X'')) = Some exampleNow
   \<and> map_option updated_at (map_of (buffers exampleDb) (bufferKey ''o1'' ''W'' ''X'')) = Some 0
   \<and> map rec_target (data (fst (getRecommendations exampleNow exampleInputDefault exampleDb)))
      = [252, 24]
   \<and> map rec_target (data (fst (getRecommendations exampleNow exampleInput exampleDb)))
      = [40, 24]
   \<and> in_autoRecalc exampleInput = Some False
   \<and> snd (getRecommendations exampleNow exampleInput exampleDb) = exampleDb"
proof -
  have a: "in_autoRecalc exampleInputDefault \<noteq> Some False"
    and o: "in_orgId exampleInputDefault = ''o1''" "in_warehouseId exampleInputDefault = ''W''"
    by (simp_all add: exampleInputDefault_def)
  have b: "in_autoRecalc exampleInput = Some False" by (simp add: exampleInput_def)
  have mem: "''X'' \<in> (\<lambda>r. sd_sku (fst r)) `
               set (windowRows exampleDb ''o1'' ''W'' (subDays exampleNow 60))"
    using exampleDb_skus by (simp add: lookbackOf_def)
  have old: "map_option updated_at (map_of (buffers exampleDb) (bufferKey ''o1'' ''W'' ''X'')) = Some 0"
    by (simp add: exampleDb_def bufferKey_def)
  note t = getRecommendations_autoRecalc [of exampleInputDefault exampleNow exampleDb]
  have new: "map_option updated_at
        (map_of (buffers (snd (getRecommendations exampleNow exampleInputDefault exampleDb)))
           (bufferKey ''o1'' ''W'' ''X'')) = Some exampleNow"
    using t a mem by (auto simp add: o)
  have rd: "map rec_target (data (fst (getRecommendations exampleNow exampleInputDefault exampleDb)))
      = [252, 24]"
    using t a exampleDb_read_default by (simp add: o)
  have rd0: "map rec_target (data (fst (getRecommendations exampleNow exampleInput exampleDb)))
      = [40, 24]"
    by (simp add: exampleDb_get exampleDb_read)
  have un: "snd (getRecommendations exampleNow exampleInput exampleDb) = exampleDb"
    using getRecommendations_autoRecalc [of exampleInput exampleNow exampleDb] b by simp
  show ?thesis using a mem new old rd rd0 b un by simp
qed

section \<open>Auxiliary facts: the sales aggregator\<close>

lemma sales_daily_val_overwrite:
  "(old :: sales_daily_val)\<lparr>sd_units := a, sd_revenue := b, sd_orders := c, sd_updated_at := e\<rparr>
   = \<lparr>sd_units = a, sd_revenue = b, sd_orders = c, sd_updated_at = e\<rparr>"
  by (cases old) simp

lemma upsertSalesDaily_update:
  "upsertSalesDaily now row tbl = AList.update (fst row) (rollupVal now row) tbl"
  by (cases row; cases "map_of tbl (fst row)")
     (simp_all add: upsertSalesDaily_def rollupVal_def update_append_new sales_daily_val_overwrite)

lemma fold_upsertSalesDaily_other:
  "k \<notin> fst ` set rows \<Longrightarrow> map_of (fold (upsertSalesDaily now) rows tbl) k = map_of tbl k"
  by (induction rows arbitrary: tbl) (auto simp: upsertSalesDaily_update update_conv')

lemma fold_upsertSalesDaily_hit:
  "distinct (map fst rows) \<Longrightarrow> r \<in> set rows \<Longrightarrow>
   map_of (fold (upsertSalesDaily now) rows tbl) (fst r) = Some (rollupVal now r)"
proof (induction rows arbitrary: tbl)
  case Nil
  then show ?case by simp
next
  case (Cons x xs)
  show ?case
  proof (cases "r = x")
    case True
    have "fst x \<notin> fst ` set xs" using Cons.prems(1) by auto
    then have "map_of (fold (upsertSalesDaily now) xs (upsertSalesDaily now x tbl)) (fst x)
               = map_of (upsertSalesDaily now x tbl) (fst x)"
      by (rule fold_upsertSalesDaily_other)
    also have "\<dots> = Some (rollupVal now x)"
      by (simp add: upsertSalesDaily_update update_conv')
    finally show ?thesis using True by simp
  next
    case False
    then show ?thesis using Cons by simp
  qed
qed

lemma fold_upsertSalesDaily_same:
  "\<forall>r \<in> set rows. map_of tbl (fst r) = Some (rollupVal now r) \<Longrightarrow>
   fold (upsertSalesDaily now) rows tbl = tbl"
  by (induction rows) (simp_all add: upsertSalesDaily_update update_triv)

lemma rollupValues_update:
  "map_of tbl k = Some v \<Longrightarrow> sd_units v' = sd_units v \<Longrightarrow> sd_revenue v' = sd_revenue v \<Longrightarrow>
   sd_orders v' = sd_orders v \<Longrightarrow> rollupValues (AList.update k v' tbl) = rollupValues tbl"
  by (induction tbl) (auto simp: rollupValues_def split: if_splits)

lemma rollupVal_fields [simp]:
  "sd_units (rollupVal now r) = fst (snd r)"
  "sd_revenue (rollupVal now r) = fst (snd (snd r))"
  "sd_orders (rollupVal now r) = snd (snd (snd r))"
  "sd_updated_at (rollupVal now r) = now"
  by (cases r; simp add: rollupVal_def)+

lemma fold_upsertSalesDaily_values:
  "distinct (map fst rows) \<Longrightarrow>
   \<forall>r \<in> set rows. map_of tbl (fst r) = Some (rollupVal now r) \<Longrightarrow>
   rollupValues (fold (upsertSalesDaily now') rows tbl) = rollupValues tbl"
proof (induction rows arbitrary: tbl)
  case Nil
  then show ?case by simp
next
  case (Cons x xs)
  let ?t = "upsertSalesDaily now' x tbl"
  have x: "map_of tbl (fst x) = Some (rollupVal now x)" using Cons.prems(2) by simp
  have v: "rollupValues ?t = rollupValues tbl"
    unfolding upsertSalesDaily_update using x by (rule rollupValues_update) simp_all
  have "map_of ?t (fst r) = Some (rollupVal now r)" if "r \<in> set xs" for r
  proof -
    have "fst x \<notin> fst ` set xs" using Cons.prems(1) by simp
    then have "fst r \<noteq> fst x" using that by (metis imageI)
    then show ?thesis using that Cons.prems(2)
      by (simp add: upsertSalesDaily_update update_conv')
  qed
  then have "rollupValues (fold (upsertSalesDaily now') xs ?t) = rollupValues ?t"
    using Cons.prems(1) by (intro Cons.IH) simp_all
  then show ?case using v by simp
qed

lemma dayOf_bounds:
  assumes "f * MS_PER_DAY \<le> ts" and "ts \<le> t * MS_PER_DAY + (MS_PER_DAY - 1)"
  shows "f * MS_PER_DAY \<le> dayOf ts * MS_PER_DAY \<and> dayOf ts * MS_PER_DAY \<le> t * MS_PER_DAY"
proof -
  have pos: "0 < MS_PER_DAY" by (simp add: MS_PER_DAY_def)
  have "(f * MS_PER_DAY) div MS_PER_DAY \<le> ts div MS_PER_DAY"
    using assms(1) pos by (intro zdiv_mono1) simp_all
  then have lo: "f \<le> dayOf ts" using pos by (simp add: dayOf_def)
  have "ts div MS_PER_DAY \<le> (t * MS_PER_DAY + (MS_PER_DAY - 1)) div MS_PER_DAY"
    using assms(2) pos by (intro zdiv_mono1) simp_all
  also have "\<dots> = t" by (simp add: MS_PER_DAY_def)
  finally have hi: "dayOf ts \<le> t" by (simp add: dayOf_def)
  show ?thesis using lo hi pos by simp
qed

lemma selectRows_keys:
  assumes "r \<in> set (selectRows (eventsInRange d org f t))"
  shows "sd_org_id (fst r) = org \<and> f * MS_PER_DAY \<le> sd_date (fst r)
         \<and> sd_date (fst r) \<le> t * MS_PER_DAY"
proof -
  from assms obtain e where e: "e \<in> set (eventsInRange d org f t)"
    and r: "r = selectRow (eventsInRange d org f t) (groupKey e)"
    by (auto simp: selectRows_def)
  have b: "se_org_id e = org" "f * MS_PER_DAY \<le> se_order_datetime e"
    "se_order_datetime e \<le> t * MS_PER_DAY + (MS_PER_DAY - 1)"
    using e by (simp_all add: eventsInRange_def)
  have k: "sd_org_id (fst r) = se_org_id e"
    "sd_date (fst r) = dayOf (se_order_datetime e) * MS_PER_DAY"
    unfolding r by (simp_all add: selectRow_def groupKey_def Let_def)
  show ?thesis using dayOf_bounds [OF b(2,3)] b(1) k by simp
qed

lemma rebuildSalesDaily_events:
  "sales_events (snd (rebuildSalesDaily today now opts d)) = sales_events d"
  by (simp add: rebuildSalesDaily_def Let_def)

lemma eventsInRange_cong:
  "sales_events d' = sales_events d \<Longrightarrow> eventsInRange d' org f t = eventsInRange d org f t"
  by (simp add: eventsInRange_def)

lemma exampleDb_rebuild:
  "rebuildSalesDaily exampleNow now exampleRebuild exampleDb =
     (Inr \<lparr>res_from = 105, res_to = 115\<rparr>,
      exampleDb\<lparr>sales_daily :=
        [(\<lparr>sd_org_id = ''o1'', sd_date = 100 * MS_PER_DAY, sd_sku = ''X'', sd_warehouse_id = ''W'',
           sd_channel = ''ALL''\<rparr>,
          \<lparr>sd_units = 30, sd_revenue = 300, sd_orders = 2, sd_updated_at = 0\<rparr>),
         (\<lparr>sd_org_id = ''o1'', sd_date = 110 * MS_PER_DAY, sd_sku = ''X'', sd_warehouse_id = ''W'',
           sd_channel = ''ALL''\<rparr>,
          \<lparr>sd_units = 30, sd_revenue = 0, sd_orders = 1, sd_updated_at = now\<rparr>)]\<rparr>)"
  by (simp add: rebuildSalesDaily_def exampleRebuild_def eventsInRange_def exampleDb_def
      MS_PER_DAY_def selectRows_def selectRow_def groupKey_def dayOf_def Let_def coalesce_def
      sql_sum_def WAREHOUSE_FALLBACK_def CHANNEL_FALLBACK_def upsertSalesDaily_def)

section \<open>Sales aggregator: idempotence and range\<close>

text \<open>
  Claim C7. Running \<open>rebuildSalesDaily\<close> a second time over the same events and the same
  range gives the same result and leaves every rollup row with the units, revenue and
  order count of the first run, adding no row; with the same store time the whole store
  is the same. A run changes no rollup row whose date lies before the first or after the
  last day of the range, nor one of another organisation. The store time of the second
  run is free: \<^verbatim>\<open>updated_at\<close> is the one column that may differ.
\<close>

theorem rebuildSalesDaily_idempotent:
  fixes today now now' :: timestamp and opts :: rebuild_options and d :: db
  defines "d1 \<equiv> snd (rebuildSalesDaily today now opts d)"
  defines "d2 \<equiv> snd (rebuildSalesDaily today now' opts d1)"
  shows "fst (rebuildSalesDaily today now' opts d1) = fst (rebuildSalesDaily today now opts d)
       \<and> rollupValues (sales_daily d2) = rollupValues (sales_daily d1)
       \<and> (now' = now \<longrightarrow> d2 = d1)
       \<and> (\<forall>k. sd_date k < rangeFrom today opts * MS_PER_DAY
                \<or> rangeTo today opts * MS_PER_DAY < sd_date k
                \<or> sd_org_id k \<noteq> ro_orgId opts
              \<longrightarrow> map_of (sales_daily d1) k = map_of (sales_daily d) k)"
proof -
  let ?rows = "selectRows (eventsInRange d (ro_orgId opts) (rangeFrom today opts) (rangeTo today opts))"
  have ev: "eventsInRange d1 (ro_orgId opts) (rangeFrom today opts) (rangeTo today opts)
            = eventsInRange d (ro_orgId opts) (rangeFrom today opts) (rangeTo today opts)"
    unfolding d1_def by (rule eventsInRange_cong) (rule rebuildSalesDaily_events)
  have run1: "rebuildSalesDaily today now opts d
              = (if \<not> distinct (map fst ?rows) then (Inl CardinalityViolation, d)
                 else (Inr \<lparr>res_from = rangeFrom today opts, res_to = rangeTo today opts\<rparr>,
                       d\<lparr>sales_daily := fold (upsertSalesDaily now) ?rows (sales_daily d)\<rparr>))"
    by (simp add: rebuildSalesDaily_def rangeFrom_def rangeTo_def Let_def)
  have run2: "rebuildSalesDaily today now' opts d1
              = (if \<not> distinct (map fst ?rows) then (Inl CardinalityViolation, d1)
                 else (Inr \<lparr>res_from = rangeFrom today opts, res_to = rangeTo today opts\<rparr>,
                       d1\<lparr>sales_daily := fold (upsertSalesDaily now') ?rows (sales_daily d1)\<rparr>))"
    using ev by (simp add: rebuildSalesDaily_def rangeFrom_def rangeTo_def Let_def)
  have res: "fst (rebuildSalesDaily today now' opts d1) = fst (rebuildSalesDaily today now opts d)"
    unfolding run1 run2 by simp
  have frame: "map_of (sales_daily d1) k = map_of (sales_daily d) k"
    if "sd_date k < rangeFrom today opts * MS_PER_DAY
        \<or> rangeTo today opts * MS_PER_DAY < sd_date k \<or> sd_org_id k \<noteq> ro_orgId opts" for k
  proof -
    have "k \<notin> fst ` set ?rows"
    proof
      assume "k \<in> fst ` set ?rows"
      then obtain r where "r \<in> set ?rows" "k = fst r" by auto
      with selectRows_keys [of r d "ro_orgId opts" "rangeFrom today opts" "rangeTo today opts"] that
      show False by auto
    qed
    then show ?thesis
      unfolding d1_def run1 by (simp add: fold_upsertSalesDaily_other)
  qed
  show ?thesis
  proof (cases "distinct (map fst ?rows)")
    case False
    then have "d1 = d" "d2 = d" unfolding d2_def run2 unfolding d1_def run1 by simp_all
    then show ?thesis using res frame by simp
  next
    case True
    have t1: "sales_daily d1 = fold (upsertSalesDaily now) ?rows (sales_daily d)"
      unfolding d1_def run1 using True by simp
    have hit: "\<forall>r \<in> set ?rows. map_of (sales_daily d1) (fst r) = Some (rollupVal now r)"
      unfolding t1 using True by (simp add: fold_upsertSalesDaily_hit)
    have t2: "d2 = d1\<lparr>sales_daily := fold (upsertSalesDaily now') ?rows (sales_daily d1)\<rparr>"
      unfolding d2_def run2 using True by simp
    have "rollupValues (fold (upsertSalesDaily now') ?rows (sales_daily d1))
          = rollupValues (sales_daily d1)"
      using True hit by (rule fold_upsertSalesDaily_values)
    then have vals: "rollupValues (sales_daily d2) = rollupValues (sales_daily d1)"
      unfolding t2 by simp
    have "fold (upsertSalesDaily now) ?rows (sales_daily d1) = sales_daily d1"
      using hit by (rule fold_upsertSalesDaily_same)
    then have same: "d2 = d1" if "now' = now"
      unfolding t2 using that by simp
    show ?thesis using res vals same frame by simp
  qed
qed

theorem rebuildSalesDaily_idempotent_witness:
  "fst (rebuildSalesDaily exampleNow 888 exampleRebuild
          (snd (rebuildSalesDaily exampleNow 777 exampleRebuild exampleDb)))
     = Inr \<lparr>res_from = 105, res_to = 115\<rparr>
   \<and> rollupValues (sales_daily (snd (rebuildSalesDaily exampleNow 888 exampleRebuild
          (snd (rebuildSalesDaily exampleNow 777 exampleRebuild exampleDb)))))
     = [(\<lparr>sd_org_id = ''o1'', sd_date = 100 * MS_PER_DAY, sd_sku = ''X'', sd_warehouse_id = ''W'',
           sd_channel = ''ALL''\<rparr>, 30, 300, 2),
        (\<lparr>sd_org_id = ''o1'', sd_date = 110 * MS_PER_DAY, sd_sku = ''X'', sd_warehouse_id = ''W'',
           sd_channel = ''ALL''\<rparr>, 30, 0, 1)]
   \<and> 100 * MS_PER_DAY < rangeFrom exampleNow exampleRebuild * MS_PER_DAY
   \<and> map_of (sales_daily (snd (rebuildSalesDaily exampleNow 777 exampleRebuild exampleDb)))
        \<lparr>sd_org_id = ''o1'', sd_date = 100 * MS_PER_DAY, sd_sku = ''X'', sd_warehouse_id = ''W'',
         sd_channel = ''ALL''\<rparr>
     = Some \<lparr>sd_units = 30, sd_revenue = 300, sd_orders = 2, sd_updated_at = 0\<rparr>"
proof -
  let ?k = "\<lparr>sd_org_id = ''o1'', sd_date = 100 * MS_PER_DAY, sd_sku = ''X'', sd_warehouse_id = ''W'',
         sd_channel = ''ALL''\<rparr>"
  note t = rebuildSalesDaily_idempotent [of exampleNow 888 exampleRebuild 777 exampleDb]
  have out: "100 * MS_PER_DAY < rangeFrom exampleNow exampleRebuild * MS_PER_DAY"
    by (simp add: rangeFrom_def exampleRebuild_def MS_PER_DAY_def)
  have before: "map_of (sales_daily exampleDb) ?k
     = Some \<lparr>sd_units = 30, sd_revenue = 300, sd_orders = 2, sd_updated_at = 0\<rparr>"
    by (simp add: exampleDb_def)
  have r1: "rollupValues (sales_daily (snd (rebuildSalesDaily exampleNow 777 exampleRebuild exampleDb)))
     = [(?k, 30, 300, 2),
        (\<lparr>sd_org_id = ''o1'', sd_date = 110 * MS_PER_DAY, sd_sku = ''X'', sd_warehouse_id = ''W'',
           sd_channel = ''ALL''\<rparr>, 30, 0, 1)]"
    by (simp add: exampleDb_rebuild rollupValues_def)
  have c1: "fst (rebuildSalesDaily exampleNow 888 exampleRebuild
          (snd (rebuildSalesDaily exampleNow 777 exampleRebuild exampleDb)))
     = Inr \<lparr>res_from = 105, res_to = 115\<rparr>"
    using t by (simp add: exampleDb_rebuild)
  have c2: "rollupValues (sales_daily (snd (rebuildSalesDaily exampleNow 888 exampleRebuild
          (snd (rebuildSalesDaily exampleNow 777 exampleRebuild exampleDb)))))
     = rollupValues (sales_daily (snd (rebuildSalesDaily exampleNow 777 exampleRebuild exampleDb)))"
    using t by blast
  have c3: "map_of (sales_daily (snd (rebuildSalesDaily exampleNow 777 exampleRebuild exampleDb))) ?k
            = map_of (sales_daily exampleDb) ?k"
    using t out by simp
  show ?thesis using c1 c2 c3 r1 before out by simp
qed

section \<open>KPI calculator\<close>







end
